theory Spec2Isabelle
  imports Complex_Main
begin

section \<open>Data model\<close>

text \<open>
  JavaScript numbers are modelled as mathematical numbers: \<open>real\<close> for positions, times,
  speeds and gains, \<open>int\<close> for string indices, frets and MIDI notes (rounding of doubles and
  NaN are outside the model).
\<close>

subsection \<open>types/landmarks.ts\<close>

text \<open>\<open>Point3D\<close>: the fields \<open>x\<close>, \<open>y\<close>, \<open>z\<close> of the source are \<open>px\<close>, \<open>py\<close>, \<open>pz\<close>.\<close>

record Point3D =
  px :: real
  py :: real
  pz :: real

datatype direction = Up | Down

record StrumEvent =
  timestamp :: real
  stringIndex :: int
  fretIndex :: int
  velocity :: real
  direction :: direction

text \<open>\<open>StrumState\<close>: the field \<open>velocity\<close> of the source is \<open>lastSpeed\<close> here.\<close>

record StrumState =
  lastPosition :: "Point3D option"
  lastTimestamp :: real
  lastSpeed :: real
  isStrumming :: bool

subsection \<open>config/constants.ts\<close>

text \<open>The \<open>midi\<close> column of \<open>GUITAR_TUNING\<close> (E2 A2 D3 G3 B3 E4).\<close>

definition GUITAR_TUNING :: "int list" where
  "GUITAR_TUNING = [40, 45, 50, 55, 59, 64]"

definition STRUM_SPEED_THRESHOLD :: real where
  "STRUM_SPEED_THRESHOLD = 15 / 100"

definition STRUM_SPEED_MAX :: real where
  "STRUM_SPEED_MAX = 8 / 10"

definition STRUM_DEBOUNCE_MS :: real where
  "STRUM_DEBOUNCE_MS = 50"

definition minGain :: real where
  "minGain = 1 / 10"

definition maxGain :: real where
  "maxGain = 9 / 10"

definition gainGamma :: real where
  "gainGamma = 9 / 10"

text \<open>\<open>WS_CONFIG\<close>: declared in constants.ts, read by no code of the client.\<close>

definition reconnectBaseDelay :: nat where
  "reconnectBaseDelay = 1000"

definition reconnectMaxDelay :: nat where
  "reconnectMaxDelay = 8000"

definition maxReconnectAttempts :: nat where
  "maxReconnectAttempts = 10"

text \<open>\<open>AI_CONFIG.confidenceThreshold\<close>.\<close>

definition confidenceThreshold :: real where
  "confidenceThreshold = 85 / 100"

subsection \<open>lib/math\<close>

text \<open>
  The module \<open>lib/math\<close> is imported by the audio engine, but it is not among the
  sources. Each of its functions that the engine calls is modelled from the
  specification, or from the listing of it in docs/ARCHITECTURE.md where there is one.
\<close>

text \<open>
  Modelled from the spec: \<open>subtract\<close> of lib/math is missing; the movement between
  "consecutive normalized positions" is their componentwise difference.
\<close>

definition subtract :: "Point3D \<Rightarrow> Point3D \<Rightarrow> Point3D" where
  "subtract a b = \<lparr>px = px a - px b, py = py a - py b, pz = pz a - pz b\<rparr>"

text \<open>
  Modelled from the spec: \<open>magnitude\<close> of lib/math is missing; the speed is the
  "Euclidean distance between consecutive normalized positions divided by elapsed time".
\<close>

definition magnitude :: "Point3D \<Rightarrow> real" where
  "magnitude v = sqrt (px v * px v + py v * py v + pz v * pz v)"

text \<open>
  Modelled from the spec: \<open>clamp\<close> of lib/math is missing; \<open>clamp(v, lo, hi)\<close> confines
  \<open>v\<close> to the interval from \<open>lo\<close> to \<open>hi\<close> ("clamped to [0,5]").
\<close>

definition clamp :: "'a::linorder \<Rightarrow> 'a \<Rightarrow> 'a \<Rightarrow> 'a" where
  "clamp v lo hi = min (max v lo) hi"

text \<open>
  Modelled from the spec: \<open>lerp\<close> of lib/math is missing; the linear interpolation of
  "gain = lerp(minGain, maxGain, velocity^gamma)".
\<close>

definition lerp :: "real \<Rightarrow> real \<Rightarrow> real \<Rightarrow> real" where
  "lerp a b t = a + (b - a) * t"

text \<open>
  Modelled from the spec: \<open>velocityToGain\<close> of lib/math is missing; this is its listing
  in docs/ARCHITECTURE.md.
\<close>

definition velocityToGain :: "real \<Rightarrow> real \<Rightarrow> real \<Rightarrow> real \<Rightarrow> real" where
  "velocityToGain v lo hi gamma = lerp lo hi (clamp v 0 1 powr gamma)"

text \<open>
  Modelled from the spec: \<open>getFrettedMidi\<close> of lib/math is missing; the pitch is the
  "open-string pitch shifted by fret semitones", and a negative fret is the sentinel of
  a muted string, for which \<open>playNote\<close> expects a negative note.
\<close>

definition getFrettedMidi :: "int \<Rightarrow> int \<Rightarrow> int" where
  "getFrettedMidi openStringMidi fret = (if fret < 0 then - 1 else openStringMidi + fret)"

subsection \<open>stores/useStore\<close>

text \<open>
  The fields of the store that the audio engine and the recognition client read or
  write. \<open>error\<close> holds the message set by \<open>setError\<close>; the field \<open>isInitialized\<close> of
  the store is \<open>audioInitialized\<close> here, \<open>timestamp\<close> of a result is \<open>res_timestamp\<close>.
\<close>

record InferenceResult =
  res_timestamp :: real
  chord_id :: string
  confidence :: real
  fingering_map :: "int list"
  correction_active :: bool
  override_notes :: "int list option"

record Store =
  isMuted :: bool
  masterVolume :: real
  activeStrings :: "int set"
  lastStrumEvent :: "StrumEvent option"
  correctionActive :: bool
  currentChord :: string
  overrideNotes :: "int list"
  wsConnected :: bool
  lastInferenceResult :: "InferenceResult option"
  error :: "string option"
  audioInitialized :: bool

definition defaultStore :: Store where
  "defaultStore =
     \<lparr>isMuted = False, masterVolume = 8 / 10, activeStrings = {}, lastStrumEvent = None,
      correctionActive = False, currentChord = ''unknown'', overrideNotes = [],
      wsConnected = False, lastInferenceResult = None, error = None,
      audioInitialized = False\<rparr>"

subsection \<open>systems/AudioEngine\<close>

text \<open>
  A \<open>StringVoice\<close>. The Tone.js objects are kept as what was asked of them: \<open>synth\<close> is
  the list of the MIDI notes attacked (the source converts each to its frequency),
  \<open>envelope\<close> the list of the attacks and releases triggered, both oldest first and
  without their time arguments; \<open>gain\<close> is the value of the gain node.
\<close>

datatype envelopeCall = TriggerAttack | TriggerRelease

record StringVoice =
  synth :: "int list"
  envelope :: "envelopeCall list"
  gain :: real
  isPlaying :: bool
  lastNoteTime :: real

record AudioEngineState =
  isInitialized :: bool
  voices :: "StringVoice list"
  masterGain :: real
  strumState :: StrumState

record AudioEngine =
  state :: "AudioEngineState option"
  lastStrumTime :: real

text \<open>The recognition client of hooks/useWebSocket.ts.\<close>

datatype readyState = CONNECTING | OPEN

record WsClient =
  wsRef :: "readyState option"
  reconnectAttempts :: nat
  reconnectTimeout :: "nat option"

record World =
  engine :: AudioEngine
  store :: Store
  client :: WsClient

section \<open>The audio engine\<close>

definition newVoice :: StringVoice where
  "newVoice = \<lparr>synth = [], envelope = [], gain = 1 / 2, isPlaying = False,
                lastNoteTime = 0\<rparr>"

definition newEngine :: AudioEngine where
  "newEngine = \<lparr>state = None, lastStrumTime = 0\<rparr>"

text \<open>\<open>initialize\<close>, on the path where \<open>Tone.start()\<close> succeeds.\<close>

definition initialize :: "World \<Rightarrow> World" where
  "initialize w =
     (if (case state (engine w) of None \<Rightarrow> False | Some st \<Rightarrow> isInitialized st) then w
      else
        w\<lparr>engine := (engine w)\<lparr>state := Some
               \<lparr>isInitialized = True, voices = map (\<lambda>_. newVoice) GUITAR_TUNING,
                masterGain = maxGain,
                strumState = \<lparr>lastPosition = None, lastTimestamp = 0, lastSpeed = 0,
                              isStrumming = False\<rparr>\<rparr>\<rparr>,
          store := (store w)\<lparr>audioInitialized := True\<rparr>\<rparr>)"

text \<open>
  \<open>playNote\<close>. The argument \<open>now\<close> is the reading of \<open>Tone.now()\<close>, in seconds. The
  timer that releases the note 1500 ms later is an event of the environment
  (\<open>releaseNote\<close> below). A string index with no entry in \<open>GUITAR_TUNING\<close> makes the
  source throw before any write; the model returns the world unchanged there.
\<close>

definition playNote :: "int \<Rightarrow> int \<Rightarrow> real \<Rightarrow> real \<Rightarrow> World \<Rightarrow> World" where
  "playNote stringIdx fret vel now w =
     (case state (engine w) of
        None \<Rightarrow> w
      | Some st \<Rightarrow>
          if \<not> isInitialized st then w
          else if stringIdx < 0 \<or> stringIdx \<ge> int (length (voices st)) then w
          else
            let voice = voices st ! nat stringIdx in
            if now - lastNoteTime voice < STRUM_DEBOUNCE_MS / 1000 then w
            else if nat stringIdx \<ge> length GUITAR_TUNING then w
            else
              let openStringMidi = GUITAR_TUNING ! nat stringIdx;
                  midiNote = getFrettedMidi openStringMidi fret
              in
              if midiNote < 0 then w
              else
                let g = velocityToGain vel minGain maxGain gainGamma in
                if isMuted (store w) then w
                else
                  w\<lparr>engine := (engine w)\<lparr>state := Some (st\<lparr>voices := (voices st)[nat stringIdx :=
                        voice\<lparr>gain := g * masterVolume (store w),
                              synth := synth voice @ [midiNote],
                              envelope := envelope voice @ [TriggerAttack],
                              isPlaying := True, lastNoteTime := now\<rparr>]\<rparr>)\<rparr>,
                    store := (store w)\<lparr>activeStrings :=
                        insert stringIdx (activeStrings (store w))\<rparr>\<rparr>)"

definition releaseNote :: "int \<Rightarrow> World \<Rightarrow> World" where
  "releaseNote stringIdx w =
     (case state (engine w) of
        None \<Rightarrow> w
      | Some st \<Rightarrow>
          if \<not> isInitialized st then w
          else if stringIdx < 0 \<or> stringIdx \<ge> int (length (voices st)) then w
          else
            let voice = voices st ! nat stringIdx in
            if \<not> isPlaying voice then w
            else
              w\<lparr>engine := (engine w)\<lparr>state := Some (st\<lparr>voices := (voices st)[nat stringIdx :=
                    voice\<lparr>envelope := envelope voice @ [TriggerRelease],
                          isPlaying := False\<rparr>]\<rparr>)\<rparr>,
                store := (store w)\<lparr>activeStrings := activeStrings (store w) - {stringIdx}\<rparr>\<rparr>)"

text \<open>
  The fret of a strum: the override note of the store when correction is active and the
  list covers the string, the open string otherwise.
\<close>

definition resolveFret :: "Store \<Rightarrow> int \<Rightarrow> int" where
  "resolveFret s clampedString =
     (if correctionActive s \<and> int (length (overrideNotes s)) > clampedString then
        let midiNote = overrideNotes s ! nat clampedString;
            openMidi = GUITAR_TUNING ! nat clampedString
        in max 0 (midiNote - openMidi)
      else 0)"

definition setStrumState :: "StrumState \<Rightarrow> World \<Rightarrow> World" where
  "setStrumState ss w =
     (case state (engine w) of
        None \<Rightarrow> w
      | Some st \<Rightarrow> w\<lparr>engine := (engine w)\<lparr>state := Some (st\<lparr>strumState := ss\<rparr>)\<rparr>\<rparr>)"

text \<open>
  \<open>processStrumMovement\<close>: the position and the timestamp (milliseconds) of the sample;
  \<open>now\<close> is what \<open>Tone.now()\<close> returns to the \<open>playNote\<close> it calls.
\<close>

definition processStrumMovement ::
  "Point3D \<Rightarrow> real \<Rightarrow> real \<Rightarrow> World \<Rightarrow> StrumEvent option \<times> World" where
  "processStrumMovement currentPosition ts now w =
     (case state (engine w) of
        None \<Rightarrow> (None, w)
      | Some st \<Rightarrow>
          let ss = strumState st in
          (case lastPosition ss of
             None \<Rightarrow>
               (None, setStrumState (ss\<lparr>lastPosition := Some currentPosition,
                                        lastTimestamp := ts\<rparr>) w)
           | Some lastPos \<Rightarrow>
               let dt = (ts - lastTimestamp ss) / 1000 in
               if dt \<le> 0 then (None, w)
               else
                 let movement = subtract currentPosition lastPos;
                     speed = magnitude movement / dt;
                     w1 = setStrumState (ss\<lparr>lastPosition := Some currentPosition,
                                            lastTimestamp := ts, lastSpeed := speed\<rparr>) w
                 in
                 if speed > STRUM_SPEED_THRESHOLD then
                   if ts - lastStrumTime (engine w1) < STRUM_DEBOUNCE_MS then (None, w1)
                   else
                     let w2 = w1\<lparr>engine := (engine w1)\<lparr>lastStrumTime := ts\<rparr>\<rparr>;
                         normalizedVelocity = clamp (speed / STRUM_SPEED_MAX) 0 1;
                         stringIdx = \<lfloor>(1 - py currentPosition) * 6\<rfloor>;
                         clampedString = clamp stringIdx 0 5;
                         fret = resolveFret (store w2) clampedString;
                         dir = (if py movement > 0 then Down else Up);
                         strumEvent = \<lparr>timestamp = ts, stringIndex = clampedString,
                                       fretIndex = fret, velocity = normalizedVelocity,
                                       direction = dir\<rparr>;
                         w3 = w2\<lparr>store := (store w2)\<lparr>lastStrumEvent := Some strumEvent\<rparr>\<rparr>
                     in (Some strumEvent, playNote clampedString fret normalizedVelocity now w3)
                 else (None, w1)))"

definition stopAll :: "World \<Rightarrow> World" where
  "stopAll w =
     (case state (engine w) of
        None \<Rightarrow> w
      | Some st \<Rightarrow>
          if \<not> isInitialized st then w
          else
            let w1 = fold (\<lambda>i. releaseNote (int i)) [0 ..< length (voices st)] w
            in w1\<lparr>store := (store w1)\<lparr>activeStrings := {}\<rparr>\<rparr>)"

definition dispose :: "World \<Rightarrow> World" where
  "dispose w =
     (case state (engine w) of
        None \<Rightarrow> w
      | Some st \<Rightarrow> let w1 = stopAll w in w1\<lparr>engine := (engine w1)\<lparr>state := None\<rparr>\<rparr>)"

definition setVolume :: "real \<Rightarrow> World \<Rightarrow> World" where
  "setVolume volume w =
     (case state (engine w) of
        None \<Rightarrow> w
      | Some st \<Rightarrow>
          if \<not> isInitialized st then w
          else w\<lparr>engine := (engine w)\<lparr>state := Some (st\<lparr>masterGain := clamp volume 0 1\<rparr>)\<rparr>\<rparr>)"

text \<open>The store actions \<open>setMuted\<close> and \<open>setMasterVolume\<close>.\<close>

definition setMuted :: "bool \<Rightarrow> World \<Rightarrow> World" where
  "setMuted muted w = w\<lparr>store := (store w)\<lparr>isMuted := muted\<rparr>\<rparr>"

definition setMasterVolume :: "real \<Rightarrow> World \<Rightarrow> World" where
  "setMasterVolume volume w = w\<lparr>store := (store w)\<lparr>masterVolume := max 0 (min 1 volume)\<rparr>\<rparr>"

section \<open>The recognition client (hooks/useWebSocket.ts)\<close>

definition RECONNECT_DELAY :: nat where
  "RECONNECT_DELAY = 3000"

definition MAX_RECONNECT_ATTEMPTS :: nat where
  "MAX_RECONNECT_ATTEMPTS = 5"

datatype ServerMessage =
    InferenceResultMsg InferenceResult
  | InferenceErrorMsg string string
  | OtherMsg

definition newClient :: WsClient where
  "newClient = \<lparr>wsRef = None, reconnectAttempts = 0, reconnectTimeout = None\<rparr>"

text \<open>
  \<open>connect\<close>, on the path where the \<open>WebSocket\<close> constructor returns: the new socket is in
  state \<open>CONNECTING\<close>.
\<close>

definition connect :: "World \<Rightarrow> World" where
  "connect w =
     (if wsRef (client w) = Some OPEN \<or> wsRef (client w) = Some CONNECTING then w
      else w\<lparr>client := (client w)\<lparr>wsRef := Some CONNECTING\<rparr>\<rparr>)"

definition ws_onopen :: "World \<Rightarrow> World" where
  "ws_onopen w =
     w\<lparr>store := (store w)\<lparr>wsConnected := True, error := None\<rparr>,
       client := (client w)\<lparr>wsRef := Some OPEN, reconnectAttempts := 0\<rparr>\<rparr>"

text \<open>
  \<open>ws.onclose\<close>. \<open>reconnectTimeout\<close> holds the delay of the pending reconnect timer, if
  there is one.
\<close>

definition ws_onclose :: "World \<Rightarrow> World" where
  "ws_onclose w =
     (let w1 = w\<lparr>store := (store w)\<lparr>wsConnected := False\<rparr>,
                  client := (client w)\<lparr>wsRef := None\<rparr>\<rparr>
      in
      if reconnectAttempts (client w1) < MAX_RECONNECT_ATTEMPTS then
        w1\<lparr>client := (client w1)\<lparr>reconnectAttempts := reconnectAttempts (client w1) + 1,
                                   reconnectTimeout := Some RECONNECT_DELAY\<rparr>\<rparr>
      else
        w1\<lparr>store := (store w1)\<lparr>error :=
              Some ''Unable to connect to AI service. Running in offline mode.''\<rparr>\<rparr>)"

text \<open>The pending reconnect timer fires and calls \<open>connect\<close>.\<close>

definition reconnectTimer :: "World \<Rightarrow> World" where
  "reconnectTimer w =
     (case reconnectTimeout (client w) of
        None \<Rightarrow> w
      | Some d \<Rightarrow> connect (w\<lparr>client := (client w)\<lparr>reconnectTimeout := None\<rparr>\<rparr>))"

definition disconnect :: "World \<Rightarrow> World" where
  "disconnect w =
     w\<lparr>store := (store w)\<lparr>wsConnected := False\<rparr>,
       client := (client w)\<lparr>wsRef := None, reconnectTimeout := None\<rparr>\<rparr>"

text \<open>
  \<open>ws.onmessage\<close>: an inference result is stored and its \<open>correction_active\<close> field becomes
  the flag of the store; an inference error is logged only; anything else is ignored.
\<close>

definition ws_onmessage :: "ServerMessage \<Rightarrow> World \<Rightarrow> World" where
  "ws_onmessage msg w =
     (case msg of
        InferenceResultMsg result \<Rightarrow>
          let s1 = (store w)\<lparr>lastInferenceResult := Some result,
                              currentChord := chord_id result,
                              correctionActive := correction_active result\<rparr>
          in (case override_notes result of
                None \<Rightarrow> w\<lparr>store := s1\<rparr>
              | Some notes \<Rightarrow> w\<lparr>store := s1\<lparr>overrideNotes := notes\<rparr>\<rparr>)
      | InferenceErrorMsg code message \<Rightarrow> w
      | OtherMsg \<Rightarrow> w)"

text \<open>
  The delays of the reconnect timers scheduled over \<open>n\<close> successive connection losses,
  each followed by the firing of its timer (\<open>None\<close>: no timer was scheduled).
\<close>

fun lossDelays :: "nat \<Rightarrow> World \<Rightarrow> nat option list" where
  "lossDelays 0 w = []"
| "lossDelays (Suc n) w =
     (let w1 = ws_onclose w
      in reconnectTimeout (client w1) # lossDelays n (reconnectTimer w1))"

text \<open>
  Modelled from the spec: the recognizer service, which fills the \<open>correction_active\<close>
  field of a result, is missing from the sources (the client that reads the field, the
  declaration of \<open>InferenceResult\<close> and docs/API_SCHEMA.md are there). The
  specification and the schema say: a confidence of at least the activation threshold
  0.85 gives \<open>correction_active = true\<close>, a confidence below it gives \<open>false\<close>.
\<close>

definition recognizerResult ::
  "real \<Rightarrow> string \<Rightarrow> real \<Rightarrow> int list \<Rightarrow> int list option \<Rightarrow> InferenceResult" where
  "recognizerResult t chord conf fingering notes =
     \<lparr>res_timestamp = t, chord_id = chord, confidence = conf, fingering_map = fingering,
      correction_active = (conf \<ge> confidenceThreshold), override_notes = notes\<rparr>"

section \<open>Sessions\<close>

text \<open>
  The calls that reach the engine, the store and the client during a session. A strum
  sample is the call of \<open>processStrumMovement\<close> made by \<open>useAudioEngine\<close>; the notes of
  \<open>playChord\<close> and the automatic release arrive as \<open>PlayNote\<close> and \<open>ReleaseNote\<close>.
\<close>

datatype event =
    Initialize
  | Dispose
  | StrumSample Point3D real real
  | PlayNote int int real real
  | ReleaseNote int
  | StopAll
  | SetVolume real
  | SetMuted bool
  | SetMasterVolume real
  | Connect
  | Disconnect
  | WsOpen
  | WsClose
  | ReconnectTimer
  | WsMessage ServerMessage

fun step :: "event \<Rightarrow> World \<Rightarrow> StrumEvent option \<times> World" where
  "step Initialize w = (None, initialize w)"
| "step Dispose w = (None, dispose w)"
| "step (StrumSample p ts now) w = processStrumMovement p ts now w"
| "step (PlayNote i fret vel now) w = (None, playNote i fret vel now w)"
| "step (ReleaseNote i) w = (None, releaseNote i w)"
| "step StopAll w = (None, stopAll w)"
| "step (SetVolume v) w = (None, setVolume v w)"
| "step (SetMuted b) w = (None, setMuted b w)"
| "step (SetMasterVolume v) w = (None, setMasterVolume v w)"
| "step Connect w = (None, connect w)"
| "step Disconnect w = (None, disconnect w)"
| "step WsOpen w = (None, ws_onopen w)"
| "step WsClose w = (None, ws_onclose w)"
| "step ReconnectTimer w = (None, reconnectTimer w)"
| "step (WsMessage msg) w = (None, ws_onmessage msg w)"

text \<open>A session: the strum events it emits, in order, and the world it ends in.\<close>

fun run :: "event list \<Rightarrow> World \<Rightarrow> StrumEvent list \<times> World" where
  "run [] w = ([], w)"
| "run (e # es) w =
     (case step e w of
        (None, w1) \<Rightarrow> run es w1
      | (Some ev, w1) \<Rightarrow> (case run es w1 of (evs, w2) \<Rightarrow> (ev # evs, w2)))"

definition initialWorld :: World where
  "initialWorld = \<lparr>engine = newEngine, store = defaultStore, client = newClient\<rparr>"

fun isResultEvent :: "event \<Rightarrow> bool" where
  "isResultEvent (WsMessage (InferenceResultMsg r)) = True"
| "isResultEvent e = False"

text \<open>The number of voices of the engine, and of those that are sounding.\<close>

definition voiceCount :: "World \<Rightarrow> nat" where
  "voiceCount w = (case state (engine w) of None \<Rightarrow> 0 | Some st \<Rightarrow> length (voices st))"

definition soundingVoices :: "World \<Rightarrow> nat" where
  "soundingVoices w =
     (case state (engine w) of None \<Rightarrow> 0 | Some st \<Rightarrow> length (filter isPlaying (voices st)))"

definition voiceOf :: "World \<Rightarrow> int \<Rightarrow> StringVoice option" where
  "voiceOf w i =
     (case state (engine w) of
        None \<Rightarrow> None
      | Some st \<Rightarrow> if 0 \<le> i \<and> i < int (length (voices st)) then Some (voices st ! nat i) else None)"

text \<open>Every engine of a session is initialized and has one voice per string.\<close>

definition voicesOk :: "World \<Rightarrow> bool" where
  "voicesOk w =
     (case state (engine w) of
        None \<Rightarrow> True
      | Some st \<Rightarrow> length (voices st) = 6 \<and> isInitialized st)"

section \<open>The landmark normalizer (components/Vision/HandTracker.tsx)\<close>

text \<open>
  The fields of \<open>ProcessedHand\<close> computed from the landmarks (\<open>raw\<close> and the constant
  \<open>confidence\<close> are left out).
\<close>

record ProcessedHand =
  normalized :: "real list"
  wristPosition :: Point3D
  palmCenter :: Point3D
  fingerTips :: "Point3D list"
  isOpen :: bool

datatype jsError = ReferenceError

text \<open>
  \<open>processHand\<close>. Its first statement is \<open>const wrist = landmarks[LandmarkIndex.WRIST]\<close>.
  \<open>LandmarkIndex\<close> is an enum of types/landmarks.ts, a value, but HandTracker.tsx takes
  it in with \<open>import type\<close>: the import is erased when the file is compiled, the name
  has no binding when the function runs, and reading it throws a \<open>ReferenceError\<close>
  before anything else of the body is evaluated, whatever the arguments.
\<close>

definition processHand :: "Point3D list \<Rightarrow> Point3D list option \<Rightarrow> jsError + ProcessedHand" where
  "processHand landmarks prevLandmarks = Inl ReferenceError"

text \<open>
  The state written by \<open>onResults\<close>: \<open>prevLandmarksRef\<close> (\<open>prevLeft\<close>, \<open>prevRight\<close>) and the
  hands of the store.
\<close>

record Tracker =
  prevLeft :: "Point3D list option"
  prevRight :: "Point3D list option"
  leftHand :: "ProcessedHand option"
  rightHand :: "ProcessedHand option"
  isTracking :: bool

definition newTracker :: Tracker where
  "newTracker = \<lparr>prevLeft = None, prevRight = None, leftHand = None, rightHand = None,
                  isTracking = False\<rparr>"

text \<open>
  \<open>onResults\<close>, on the detected hands, each with the label MediaPipe gave it (the frame
  counter is left out). The first component is the error thrown, if one is. With no
  hand, everything is cleared. With hands, \<open>isTracking\<close> is set and the first round of
  the loop calls \<open>processHand\<close>; the statement after the call reads \<open>LandmarkIndex.WRIST\<close>
  as well, to compute the vector it would store in \<open>prevLandmarksRef\<close>, so the round
  throws there at the latest: no round completes, and nothing but \<open>isTracking\<close> is
  written.
\<close>

definition onResults ::
  "(Point3D list \<times> string option) list \<Rightarrow> Tracker \<Rightarrow> jsError option \<times> Tracker" where
  "onResults hands t =
     (case hands of
        [] \<Rightarrow>
          (None, t\<lparr>leftHand := None, rightHand := None, isTracking := False,
                   prevLeft := None, prevRight := None\<rparr>)
      | (landmarks, label) # rest \<Rightarrow>
          let t1 = t\<lparr>isTracking := True\<rparr>;
              handedness = (if label = Some ''Left'' then ''Left'' else ''Right'');
              isLeft = (handedness = ''Right'')
          in
          case processHand landmarks (if isLeft then prevLeft t1 else prevRight t1) of
            Inl e \<Rightarrow> (Some e, t1)
          | Inr processedHand \<Rightarrow> (Some ReferenceError, t1))"

section \<open>Concrete sessions\<close>

definition readyWorld :: World where
  "readyWorld = initialize initialWorld"

definition pointAt :: "real \<Rightarrow> Point3D" where
  "pointAt h = \<lparr>px = 0, py = h, pz = 0\<rparr>"

text \<open>
  A session with the recognizer unreachable: the engine starts, the hand is seen at
  time 0 and strums at 100 ms and 200 ms, and the connection is lost.
\<close>

definition offlineSession :: "event list" where
  "offlineSession =
     [Initialize, Connect, StrumSample (pointAt 0) 0 1, StrumSample (pointAt 1) 100 1,
      StrumSample (pointAt 0) 200 2, WsClose]"

text \<open>The result of docs/API_SCHEMA.md, stamped 0.\<close>

definition schemaResult :: InferenceResult where
  "schemaResult =
     \<lparr>res_timestamp = 0, chord_id = ''C_Major'', confidence = 982 / 1000,
      fingering_map = [0, 3, 2, 0, 1, 0], correction_active = True,
      override_notes = Some [48, 52, 55, 60, 64, 67]\<rparr>"

text \<open>
  A session in which that result arrives at the start and no other follows; the hand
  strums one hour later.
\<close>

definition staleSession :: "event list" where
  "staleSession =
     [Initialize, Connect, WsOpen, WsMessage (InferenceResultMsg schemaResult),
      StrumSample (pointAt 1) 3599900 3600, StrumSample (pointAt 0) 3600000 3600]"

text \<open>
  A hand of 21 landmarks: the wrist and the pinky knuckle at the origin, the index
  knuckle at distance 1 (palm width 1), the index fingertip at \<open>k\<close> on the first axis.
\<close>

definition origin :: Point3D where
  "origin = \<lparr>px = 0, py = 0, pz = 0\<rparr>"

definition handWithTip :: "real \<Rightarrow> Point3D list" where
  "handWithTip k =
     [origin, origin, origin, origin, origin, \<lparr>px = 1, py = 0, pz = 0\<rparr>, origin,
      origin, \<lparr>px = k, py = 0, pz = 0\<rparr>, origin, origin, origin, origin, origin,
      origin, origin, origin, origin, origin, origin, origin]"

text \<open>
  Three frames of one hand (labelled \<open>Right\<close> by MediaPipe, the left hand of the
  store), the fingertip at 0, 1 and 1.
\<close>

definition frame1 :: Tracker where
  "frame1 = snd (onResults [(handWithTip 0, Some ''Right'')] newTracker)"

definition frame2 :: Tracker where
  "frame2 = snd (onResults [(handWithTip 1, Some ''Right'')] frame1)"

definition frame3 :: Tracker where
  "frame3 = snd (onResults [(handWithTip 1, Some ''Right'')] frame2)"

text \<open>The engine state after \<open>initialize\<close>, and after the first sample of the hand.\<close>

definition readyState :: AudioEngineState where
  "readyState =
     \<lparr>isInitialized = True, voices = replicate 6 newVoice, masterGain = 9 / 10,
      strumState = \<lparr>lastPosition = None, lastTimestamp = 0, lastSpeed = 0,
                    isStrumming = False\<rparr>\<rparr>"

definition seededState :: AudioEngineState where
  "seededState =
     \<lparr>isInitialized = True, voices = replicate 6 newVoice, masterGain = 9 / 10,
      strumState = \<lparr>lastPosition = Some (pointAt 0), lastTimestamp = 0, lastSpeed = 0,
                    isStrumming = False\<rparr>\<rparr>"

text \<open>The world after the first sample of the hand, and after string 2 was struck.\<close>

definition seededWorld :: World where
  "seededWorld = snd (processStrumMovement (pointAt 0) 0 1 readyWorld)"

definition struckWorld :: World where
  "struckWorld = playNote 2 0 1 1 readyWorld"

text \<open>The world after \<open>n\<close> connection losses, each followed by its reconnect timer.\<close>

fun afterLosses :: "nat \<Rightarrow> World \<Rightarrow> World" where
  "afterLosses 0 w = w"
| "afterLosses (Suc n) w = afterLosses n (reconnectTimer (ws_onclose w))"


section \<open>Properties\<close>

subsection \<open>What a strum sample does\<close>

lemma strum_emits:
  assumes "processStrumMovement p ts now w = (Some ev, w')"
  obtains st lastPos where "state (engine w) = Some st"
    and "lastPosition (strumState st) = Some lastPos"
    and "(ts - lastTimestamp (strumState st)) / 1000 > 0"
    and "magnitude (subtract p lastPos) / ((ts - lastTimestamp (strumState st)) / 1000)
           > STRUM_SPEED_THRESHOLD"
    and "\<not> ts - lastStrumTime (engine w) < STRUM_DEBOUNCE_MS"
    and "ev = \<lparr>timestamp = ts, stringIndex = clamp \<lfloor>(1 - py p) * 6\<rfloor> 0 5,
               fretIndex = resolveFret (store w) (clamp \<lfloor>(1 - py p) * 6\<rfloor> 0 5),
               velocity = clamp ((magnitude (subtract p lastPos) /
                  ((ts - lastTimestamp (strumState st)) / 1000)) / STRUM_SPEED_MAX) 0 1,
               direction = (if py (subtract p lastPos) > 0 then Down else Up)\<rparr>"
proof (cases "state (engine w)")
  case None
  with assms show ?thesis by (simp add: processStrumMovement_def)
next
  case (Some st)
  show ?thesis
  proof (cases "lastPosition (strumState st)")
    case None
    with Some assms show ?thesis by (simp add: processStrumMovement_def Let_def)
  next
    case (Some lastPos)
    with \<open>state (engine w) = Some st\<close> assms that[of st lastPos] show ?thesis
      by (simp add: processStrumMovement_def Let_def setStrumState_def split: if_splits)
  qed
qed

lemma fold_releaseNote_inv:
  assumes "\<And>i w. P w \<Longrightarrow> P (releaseNote i w)" and "P w"
  shows "P (fold (\<lambda>i. releaseNote (int i)) xs w)"
  using assms(2) by (induction xs arbitrary: w) (simp_all add: assms(1))

subsection \<open>The time of the last strum\<close>

lemma playNote_lastStrumTime [simp]:
  "lastStrumTime (engine (playNote i f v now w)) = lastStrumTime (engine w)"
  by (simp add: playNote_def Let_def split: option.split)

lemma releaseNote_lastStrumTime [simp]:
  "lastStrumTime (engine (releaseNote i w)) = lastStrumTime (engine w)"
  by (simp add: releaseNote_def Let_def split: option.split)

lemma fold_releaseNote_lastStrumTime [simp]:
  "lastStrumTime (engine (fold (\<lambda>i. releaseNote (int i)) xs w)) = lastStrumTime (engine w)"
  by (induction xs arbitrary: w) simp_all

lemma stopAll_lastStrumTime [simp]:
  "lastStrumTime (engine (stopAll w)) = lastStrumTime (engine w)"
  by (simp add: stopAll_def Let_def split: option.split)

lemma setStrumState_lastStrumTime [simp]:
  "lastStrumTime (engine (setStrumState ss w)) = lastStrumTime (engine w)"
  by (simp add: setStrumState_def split: option.split)

lemma strum_lastStrumTime:
  "processStrumMovement p ts now w = (r, w') \<Longrightarrow>
     lastStrumTime (engine w') = (case r of None \<Rightarrow> lastStrumTime (engine w) | Some ev \<Rightarrow> ts)"
  by (auto simp: processStrumMovement_def Let_def split: option.splits if_splits)

lemma step_lastStrumTime:
  "step e w = (None, w') \<Longrightarrow> lastStrumTime (engine w') = lastStrumTime (engine w)"
proof (cases e)
  case (StrumSample p ts now)
  assume "step e w = (None, w')"
  with StrumSample strum_lastStrumTime[of p ts now w None w'] show ?thesis by simp
qed (auto simp: initialize_def dispose_def setVolume_def setMuted_def setMasterVolume_def
        connect_def disconnect_def ws_onopen_def ws_onclose_def reconnectTimer_def
        ws_onmessage_def Let_def split: option.splits ServerMessage.splits)

lemma step_emits:
  assumes "step e w = (Some ev, w')"
  shows "timestamp ev = lastStrumTime (engine w') \<and>
         lastStrumTime (engine w) + STRUM_DEBOUNCE_MS \<le> timestamp ev"
proof (cases e)
  case (StrumSample p ts now)
  with assms have ps: "processStrumMovement p ts now w = (Some ev, w')" by simp
  from strum_lastStrumTime[OF ps] have "lastStrumTime (engine w') = ts" by simp
  moreover from ps have "timestamp ev = ts" "\<not> ts - lastStrumTime (engine w) < STRUM_DEBOUNCE_MS"
    by (auto elim!: strum_emits)
  ultimately show ?thesis by simp
qed (use assms in auto)

lemma run_spaced:
  "run es w = (evs, w') \<Longrightarrow>
     sorted_wrt (\<lambda>a b. timestamp a + STRUM_DEBOUNCE_MS \<le> timestamp b) evs \<and>
     (\<forall>ev \<in> set evs. lastStrumTime (engine w) + STRUM_DEBOUNCE_MS \<le> timestamp ev)"
proof (induction es arbitrary: w evs w')
  case Nil
  then show ?case by simp
next
  case (Cons e es)
  obtain r w1 where st: "step e w = (r, w1)" by (cases "step e w")
  show ?case
  proof (cases r)
    case None
    with st Cons.prems have "run es w1 = (evs, w')" by simp
    from Cons.IH[OF this] step_lastStrumTime[of e w w1] st None show ?thesis by simp
  next
    case (Some ev)
    obtain evs1 w2 where r1: "run es w1 = (evs1, w2)" by (cases "run es w1")
    with st Some Cons.prems have evs: "evs = ev # evs1" by simp
    from step_emits[of e w ev w1] st Some
    have a: "timestamp ev = lastStrumTime (engine w1)"
      and b: "lastStrumTime (engine w) + STRUM_DEBOUNCE_MS \<le> timestamp ev" by simp_all
    have pos: "0 \<le> STRUM_DEBOUNCE_MS" by (simp add: STRUM_DEBOUNCE_MS_def)
    from Cons.IH[OF r1] a b pos evs show ?thesis by fastforce
  qed
qed

subsection \<open>The correction flag of the store\<close>

lemma playNote_store:
  "store (playNote i f v now w) = store w \<or>
   store (playNote i f v now w) = (store w)\<lparr>activeStrings := insert i (activeStrings (store w))\<rparr>"
  by (simp add: playNote_def Let_def split: option.split)

lemma playNote_correctionActive [simp]:
  "correctionActive (store (playNote i f v now w)) = correctionActive (store w)"
  using playNote_store[of i f v now w] by auto

lemma releaseNote_correctionActive [simp]:
  "correctionActive (store (releaseNote i w)) = correctionActive (store w)"
  by (simp add: releaseNote_def Let_def split: option.split)

lemma fold_releaseNote_correctionActive [simp]:
  "correctionActive (store (fold (\<lambda>i. releaseNote (int i)) xs w)) = correctionActive (store w)"
  by (induction xs arbitrary: w) simp_all

lemma stopAll_correctionActive [simp]:
  "correctionActive (store (stopAll w)) = correctionActive (store w)"
  by (simp add: stopAll_def Let_def split: option.split)

lemma setStrumState_store [simp]: "store (setStrumState ss w) = store w"
  by (simp add: setStrumState_def split: option.split)

lemma strum_correctionActive:
  "processStrumMovement p ts now w = (r, w') \<Longrightarrow>
     correctionActive (store w') = correctionActive (store w)"
  by (auto simp: processStrumMovement_def Let_def split: option.splits if_splits)

lemma step_correctionActive:
  assumes "\<not> isResultEvent e" and "step e w = (r, w')"
  shows "correctionActive (store w') = correctionActive (store w)"
proof (cases e)
  case (StrumSample p ts now)
  with assms(2) strum_correctionActive[of p ts now w r w'] show ?thesis by simp
next
  case (WsMessage msg)
  with assms show ?thesis by (cases msg) (auto simp: ws_onmessage_def)
qed (use assms(2) in \<open>auto simp: initialize_def dispose_def setVolume_def setMuted_def
        setMasterVolume_def connect_def disconnect_def ws_onopen_def ws_onclose_def
        reconnectTimer_def Let_def split: option.splits if_splits\<close>)

lemma step_fret_open:
  assumes "step e w = (Some ev, w')" and "\<not> correctionActive (store w)"
  shows "fretIndex ev = 0"
proof (cases e)
  case (StrumSample p ts now)
  with assms(1) have "processStrumMovement p ts now w = (Some ev, w')" by simp
  then show ?thesis using assms(2) by (auto elim!: strum_emits simp: resolveFret_def)
qed (use assms(1) in auto)

lemma run_no_result:
  "run es w = (evs, w') \<Longrightarrow> \<forall>e \<in> set es. \<not> isResultEvent e \<Longrightarrow>
     \<not> correctionActive (store w) \<Longrightarrow>
     \<not> correctionActive (store w') \<and> (\<forall>ev \<in> set evs. fretIndex ev = 0)"
proof (induction es arbitrary: w evs w')
  case Nil
  then show ?case by simp
next
  case (Cons e es)
  obtain r w1 where st: "step e w = (r, w1)" by (cases "step e w")
  from Cons.prems(2) have ne: "\<not> isResultEvent e" and nes: "\<forall>e \<in> set es. \<not> isResultEvent e"
    by simp_all
  from step_correctionActive[OF ne st] Cons.prems(3)
  have c1: "\<not> correctionActive (store w1)" by simp
  show ?case
  proof (cases r)
    case None
    with st Cons.prems(1) have "run es w1 = (evs, w')" by simp
    from Cons.IH[OF this nes c1] show ?thesis .
  next
    case (Some ev)
    obtain evs1 w2 where r1: "run es w1 = (evs1, w2)" by (cases "run es w1")
    with st Some Cons.prems(1) have evs: "evs = ev # evs1" and w2: "w2 = w'" by simp_all
    from step_fret_open[of e w ev w1] st Some Cons.prems(3) have "fretIndex ev = 0" by simp
    with Cons.IH[OF r1 nes c1] evs w2 show ?thesis by simp
  qed
qed

subsection \<open>One voice per string\<close>

lemma voicesOk_store [simp]: "voicesOk (w\<lparr>store := s\<rparr>) = voicesOk w"
  by (simp add: voicesOk_def)

lemma playNote_voicesOk: "voicesOk w \<Longrightarrow> voicesOk (playNote i f v now w)"
  by (auto simp: voicesOk_def playNote_def Let_def split: option.splits)

lemma releaseNote_voicesOk: "voicesOk w \<Longrightarrow> voicesOk (releaseNote i w)"
  by (auto simp: voicesOk_def releaseNote_def Let_def split: option.splits)

lemma stopAll_voicesOk: "voicesOk w \<Longrightarrow> voicesOk (stopAll w)"
proof -
  assume a: "voicesOk w"
  have "voicesOk (fold (\<lambda>i. releaseNote (int i)) xs w)" for xs
    by (rule fold_releaseNote_inv[where P = voicesOk, OF releaseNote_voicesOk a])
  then show ?thesis
    using a by (simp add: stopAll_def Let_def split: option.splits)
qed

lemma strum_voicesOk:
  "processStrumMovement p ts now w = (r, w') \<Longrightarrow> voicesOk w \<Longrightarrow> voicesOk w'"
proof -
  have s: "voicesOk (setStrumState ss w)" if "voicesOk w" for ss w
    using that by (auto simp: voicesOk_def setStrumState_def split: option.splits)
  have l: "voicesOk (w\<lparr>engine := (engine w)\<lparr>lastStrumTime := t\<rparr>\<rparr>)" if "voicesOk w" for t w
    using that by (simp add: voicesOk_def)
  show "processStrumMovement p ts now w = (r, w') \<Longrightarrow> voicesOk w \<Longrightarrow> voicesOk w'"
    by (auto simp: processStrumMovement_def Let_def s l playNote_voicesOk
          split: option.splits if_splits)
qed

lemma step_voicesOk:
  assumes "step e w = (r, w')" and "voicesOk w"
  shows "voicesOk w'"
proof (cases e)
  case (StrumSample p ts now)
  with assms strum_voicesOk[of p ts now w r w'] show ?thesis by simp
next
  case Dispose
  with assms show ?thesis by (auto simp: dispose_def voicesOk_def Let_def split: option.splits)
next
  case StopAll
  with assms stopAll_voicesOk[of w] show ?thesis by auto
next
  case (PlayNote i f v now)
  with assms playNote_voicesOk[of w i f v now] show ?thesis by auto
next
  case (ReleaseNote i)
  with assms releaseNote_voicesOk[of w i] show ?thesis by auto
qed (use assms in \<open>auto simp: initialize_def setVolume_def setMuted_def GUITAR_TUNING_def
        setMasterVolume_def connect_def disconnect_def ws_onopen_def ws_onclose_def
        reconnectTimer_def ws_onmessage_def voicesOk_def Let_def
        split: option.splits ServerMessage.splits if_splits\<close>)

lemma run_voicesOk:
  "run es w = (evs, w') \<Longrightarrow> voicesOk w \<Longrightarrow> voicesOk w'"
proof (induction es arbitrary: w evs w')
  case Nil
  then show ?case by simp
next
  case (Cons e es)
  obtain r w1 where st: "step e w = (r, w1)" by (cases "step e w")
  obtain evs1 w2 where r1: "run es w1 = (evs1, w2)" by (cases "run es w1")
  from st r1 Cons.prems(1) have "w2 = w'" by (cases r) simp_all
  with Cons.IH[OF r1 step_voicesOk[OF st Cons.prems(2)]] show ?case by simp
qed

lemma filter_update_playing:
  "i < length xs \<Longrightarrow> isPlaying v \<Longrightarrow>
     length (filter isPlaying (xs[i := v])) =
       (if isPlaying (xs ! i) then length (filter isPlaying xs)
        else Suc (length (filter isPlaying xs)))"
proof (induction xs arbitrary: i)
  case Nil
  then show ?case by simp
next
  case (Cons a xs)
  then show ?case by (cases i) auto
qed

lemma filter_update_released:
  "i < length xs \<Longrightarrow> isPlaying (xs ! i) \<Longrightarrow> \<not> isPlaying v \<Longrightarrow>
     Suc (length (filter isPlaying (xs[i := v]))) = length (filter isPlaying xs)"
proof (induction xs arbitrary: i)
  case Nil
  then show ?case by simp
next
  case (Cons a xs)
  then show ?case by (cases i) auto
qed

lemma voicesOk_sounding: "voicesOk u \<Longrightarrow> soundingVoices u \<le> 6"
proof (cases "state (engine u)")
  case None
  then show ?thesis by (simp add: soundingVoices_def)
next
  case (Some st)
  assume "voicesOk u"
  with Some have "length (voices st) = 6" by (simp add: voicesOk_def)
  moreover have "length (filter isPlaying (voices st)) \<le> length (voices st)" by simp
  ultimately show ?thesis using Some by (simp add: soundingVoices_def)
qed

subsection \<open>Evaluation of the concrete sessions\<close>

lemmas session_defs = initialize_def initialWorld_def newEngine_def GUITAR_TUNING_def
  newVoice_def maxGain_def minGain_def gainGamma_def defaultStore_def newClient_def
  processStrumMovement_def setStrumState_def playNote_def releaseNote_def connect_def
  ws_onclose_def ws_onopen_def ws_onmessage_def resolveFret_def getFrettedMidi_def
  velocityToGain_def lerp_def clamp_def magnitude_def subtract_def pointAt_def
  STRUM_SPEED_THRESHOLD_def STRUM_SPEED_MAX_def STRUM_DEBOUNCE_MS_def
  MAX_RECONNECT_ATTEMPTS_def RECONNECT_DELAY_def readyWorld_def Let_def

lemma offlineSession_events:
  "fst (run offlineSession initialWorld) =
     [\<lparr>timestamp = 100, stringIndex = 0, fretIndex = 0, velocity = 1, direction = Down\<rparr>,
      \<lparr>timestamp = 200, stringIndex = 5, fretIndex = 0, velocity = 1, direction = Up\<rparr>]"
  by (simp add: offlineSession_def session_defs)

lemma offlineSession_no_result: "\<forall>e \<in> set offlineSession. \<not> isResultEvent e"
  by (simp add: offlineSession_def)

lemma readyWorld_state: "state (engine readyWorld) = Some readyState"
  by (simp add: readyState_def session_defs eval_nat_numeral)

lemma seededWorld_state: "state (engine seededWorld) = Some seededState"
  by (simp add: seededWorld_def seededState_def session_defs eval_nat_numeral)

lemma seededWorld_rest:
  "lastStrumTime (engine seededWorld) = 0"
  "store seededWorld = defaultStore\<lparr>audioInitialized := True\<rparr>"
  by (simp_all add: seededWorld_def session_defs)

lemma struckWorld_voice:
  "voiceOf struckWorld 2 =
     Some \<lparr>synth = [50], envelope = [TriggerAttack], gain = 72 / 100, isPlaying = True,
           lastNoteTime = 1\<rparr>"
  by (simp add: struckWorld_def voiceOf_def session_defs)

lemma struckWorld_count: "voiceCount struckWorld = 6" "voiceCount (setMuted True struckWorld) = 6"
  by (simp_all add: struckWorld_def voiceCount_def setMuted_def session_defs)

section \<open>The claims\<close>

text \<open>
  C1 (as amended): in a session in which no recognition result is ever received, in
  particular when the recognizer is unreachable for the whole session, every strum
  event carries the geometric fallback (the open string, fret 0) and the correction flag
  of the store is false at the end. The age of a result is examined nowhere.
\<close>

theorem no_result_geometric_fallback:
  assumes "run es initialWorld = (evs, w)" and "\<forall>e \<in> set es. \<not> isResultEvent e"
  shows "\<not> correctionActive (store w) \<and> (\<forall>ev \<in> set evs. fretIndex ev = 0)"
  using run_no_result[OF assms] by (simp add: initialWorld_def defaultStore_def)

theorem no_result_geometric_fallback_witness:
  "filter isResultEvent offlineSession = []
   \<and> map fretIndex (fst (run offlineSession initialWorld)) = [0, 0]
   \<and> \<not> correctionActive (store (snd (run offlineSession initialWorld)))"
proof -
  have r: "run offlineSession initialWorld =
             (fst (run offlineSession initialWorld), snd (run offlineSession initialWorld))"
    by simp
  have f: "filter isResultEvent offlineSession = []"
    by (simp add: offlineSession_def)
  from no_result_geometric_fallback[OF r offlineSession_no_result] f
  show ?thesis by (simp add: offlineSession_events)
qed

text \<open>
  C1 as stated fails: a result stamped 0 arrives at the start of the session, and a strum
  one hour later (3 600 000 ms) is still resolved from the override notes of that result:
  fret 3 on string 5 instead of the open string, with the correction flag true.
\<close>

theorem stale_result_still_corrects:
  "fst (run staleSession initialWorld) =
     [\<lparr>timestamp = 3600000, stringIndex = 5, fretIndex = 3, velocity = 1, direction = Up\<rparr>]
   \<and> correctionActive (store (snd (run staleSession initialWorld)))
   \<and> lastInferenceResult (store (snd (run staleSession initialWorld))) = Some schemaResult
   \<and> res_timestamp schemaResult = 0"
  by (simp add: staleSession_def schemaResult_def session_defs)

text \<open>
  C2: for every result of the recognizer, the correction flag of the store after the
  client has handled it is true exactly when the confidence is at least 0.85; the fret
  of a string is then taken from the override notes (note minus open string, not below
  0), and is the open string when the confidence is lower or the notes do not cover the
  string.
\<close>

theorem correction_active_iff_threshold:
  assumes "0 \<le> i" and "i \<le> 5"
  shows "correctionActive (store (ws_onmessage
           (InferenceResultMsg (recognizerResult t chord conf fm sent)) w)) = (conf \<ge> 85 / 100)
       \<and> resolveFret (store (ws_onmessage
           (InferenceResultMsg (recognizerResult t chord conf fm (Some ns))) w)) i =
           (if conf \<ge> 85 / 100 \<and> i < int (length ns)
            then max 0 (ns ! nat i - GUITAR_TUNING ! nat i) else 0)"
  by (simp add: ws_onmessage_def recognizerResult_def confidenceThreshold_def resolveFret_def
        Let_def split: option.split)

theorem correction_active_iff_threshold_witness:
  "correctionActive (store (ws_onmessage (InferenceResultMsg
      (recognizerResult 0 ''C_Major'' (85 / 100) [0, 3, 2, 0, 1, 0]
         (Some [48, 52, 55, 60, 64, 67]))) readyWorld))
   \<and> \<not> correctionActive (store (ws_onmessage (InferenceResultMsg
      (recognizerResult 0 ''C_Major'' (84 / 100) [0, 3, 2, 0, 1, 0]
         (Some [48, 52, 55, 60, 64, 67]))) readyWorld))
   \<and> resolveFret (store (ws_onmessage (InferenceResultMsg
      (recognizerResult 0 ''C_Major'' (85 / 100) [0, 3, 2, 0, 1, 0]
         (Some [48, 52, 55, 60, 64, 67]))) readyWorld)) 1 = 7
   \<and> resolveFret (store (ws_onmessage (InferenceResultMsg
      (recognizerResult 0 ''C_Major'' (84 / 100) [0, 3, 2, 0, 1, 0]
         (Some [48, 52, 55, 60, 64, 67]))) readyWorld)) 1 = 0"
proof -
  have i: "(0::int) \<le> 1" "(1::int) \<le> 5" by simp_all
  from correction_active_iff_threshold[OF i, where t = 0 and chord = "''C_Major''"
          and conf = "85 / 100" and fm = "[0, 3, 2, 0, 1, 0]"
          and sent = "Some [48, 52, 55, 60, 64, 67]" and w = readyWorld
          and ns = "[48, 52, 55, 60, 64, 67]"]
       correction_active_iff_threshold[OF i, where t = 0 and chord = "''C_Major''"
          and conf = "84 / 100" and fm = "[0, 3, 2, 0, 1, 0]"
          and sent = "Some [48, 52, 55, 60, 64, 67]" and w = readyWorld
          and ns = "[48, 52, 55, 60, 64, 67]"]
  show ?thesis by (simp add: GUITAR_TUNING_def)
qed

text \<open>
  C3, the code at seven successive connection losses: the reconnect timer is scheduled
  with the same delay of 3000 ms each of the five times (no doubling, no base delay of
  1000 ms, no cap of 8000 ms), then no timer is scheduled, the socket stays closed and
  the offline message is set.
\<close>

theorem reconnect_delay_is_constant:
  "lossDelays 7 (connect initialWorld) =
     [Some 3000, Some 3000, Some 3000, Some 3000, Some 3000, None, None]
   \<and> wsRef (client (afterLosses 6 (connect initialWorld))) = None
   \<and> reconnectTimeout (client (afterLosses 6 (connect initialWorld))) = None
   \<and> error (store (afterLosses 6 (connect initialWorld))) =
       Some ''Unable to connect to AI service. Running in offline mode.''"
  by code_simp

text \<open>
  C4, the code at three frames of one hand of 21 landmarks: \<open>onResults\<close> throws a
  \<open>ReferenceError\<close> on each of them, out of \<open>processHand\<close>, and writes nothing but
  \<open>isTracking\<close>. No pose vector reaches the store, neither the unsmoothed one of a first
  observation nor a smoothed one afterwards, and no vector is kept for the next frame.
\<close>

theorem hand_frames_throw:
  "onResults [(handWithTip 0, Some ''Right'')] newTracker =
     (Some ReferenceError, newTracker\<lparr>isTracking := True\<rparr>)
   \<and> fst (onResults [(handWithTip 1, Some ''Right'')] frame1) = Some ReferenceError
   \<and> fst (onResults [(handWithTip 1, Some ''Right'')] frame2) = Some ReferenceError
   \<and> map leftHand [frame1, frame2, frame3] = [None, None, None]
   \<and> map rightHand [frame1, frame2, frame3] = [None, None, None]
   \<and> map prevLeft [frame1, frame2, frame3] = [None, None, None]
   \<and> length (handWithTip 0) = 21 \<and> length (handWithTip 1) = 21"
  by (simp add: frame3_def frame2_def frame1_def onResults_def processHand_def newTracker_def
        handWithTip_def Let_def)

text \<open>
  C5: in every session, from any world, two strum events emitted by the detector are at
  least the debounce interval (50 ms) apart, whatever the samples.
\<close>

theorem strum_events_debounced:
  assumes "run es w = (evs, w')" and "i < j" and "j < length evs"
  shows "STRUM_DEBOUNCE_MS \<le> timestamp (evs ! j) - timestamp (evs ! i) \<and> STRUM_DEBOUNCE_MS = 50"
proof -
  from run_spaced[OF assms(1)]
  have "sorted_wrt (\<lambda>a b. timestamp a + STRUM_DEBOUNCE_MS \<le> timestamp b) evs" by simp
  from sorted_wrt_nth_less[OF this assms(2) assms(3)] show ?thesis
    by (simp add: STRUM_DEBOUNCE_MS_def)
qed

theorem strum_events_debounced_witness:
  "(0::nat) < 1 \<and> 1 < length (fst (run offlineSession initialWorld))
   \<and> STRUM_DEBOUNCE_MS \<le> timestamp (fst (run offlineSession initialWorld) ! 1)
                            - timestamp (fst (run offlineSession initialWorld) ! 0)"
proof -
  have r: "run offlineSession initialWorld =
             (fst (run offlineSession initialWorld), snd (run offlineSession initialWorld))"
    by simp
  have l: "1 < length (fst (run offlineSession initialWorld))"
    by (simp add: offlineSession_events)
  from strum_events_debounced[OF r zero_less_one l] l show ?thesis by simp
qed

text \<open>
  C6: in a world whose engine has at most six voices, \<open>playNote\<close> with a string index
  outside 0..5, or with a negative (muted) fret, or within the debounce interval
  (0.05 s) of the last trigger of that voice, or while the store is muted, returns the
  world as it was: no voice, and nothing else, is changed.
\<close>

theorem playNote_rejected_is_noop:
  assumes "voiceCount w \<le> 6"
      and "stringIdx < 0 \<or> 5 < stringIdx \<or> fret < 0
           \<or> (\<exists>voice. voiceOf w stringIdx = Some voice \<and>
                 now - lastNoteTime voice < STRUM_DEBOUNCE_MS / 1000)
           \<or> isMuted (store w)"
  shows "playNote stringIdx fret vel now w = w"
  using assms
  by (auto simp: playNote_def voiceCount_def voiceOf_def getFrettedMidi_def Let_def
           split: option.splits if_splits)

theorem playNote_rejected_is_noop_witness:
  "voiceOf readyWorld 2 \<noteq> voiceOf struckWorld 2
   \<and> playNote 2 0 1 (101 / 100) struckWorld = struckWorld
   \<and> playNote 6 0 1 5 struckWorld = struckWorld
   \<and> playNote (- 1) 0 1 5 struckWorld = struckWorld
   \<and> playNote 3 (- 1) 1 5 struckWorld = struckWorld
   \<and> playNote 3 0 1 5 (setMuted True struckWorld) = setMuted True struckWorld"
proof -
  have c: "voiceCount struckWorld \<le> 6" "voiceCount (setMuted True struckWorld) \<le> 6"
    by (simp_all add: struckWorld_count)
  have d: "\<exists>voice. voiceOf struckWorld 2 = Some voice \<and>
             101 / 100 - lastNoteTime voice < STRUM_DEBOUNCE_MS / 1000"
    by (simp add: struckWorld_voice STRUM_DEBOUNCE_MS_def)
  have m: "isMuted (store (setMuted True struckWorld))"
    by (simp add: setMuted_def)
  have "voiceOf readyWorld 2 = Some newVoice"
    by (simp add: voiceOf_def readyWorld_state readyState_def)
  then have n: "voiceOf readyWorld 2 \<noteq> voiceOf struckWorld 2"
    by (simp add: struckWorld_voice newVoice_def)
  from n
    playNote_rejected_is_noop[of struckWorld 2 0 "101 / 100" 1, OF c(1)] d
    playNote_rejected_is_noop[of struckWorld 6 0 5 1, OF c(1)]
    playNote_rejected_is_noop[of struckWorld "- 1" 0 5 1, OF c(1)]
    playNote_rejected_is_noop[of struckWorld 3 "- 1" 5 1, OF c(1)]
    playNote_rejected_is_noop[of "setMuted True struckWorld" 3 0 5 1, OF c(2)] m
  show ?thesis by simp
qed

text \<open>
  C7 (as amended): in every world reached by a session from the initial world, the
  engine has no voice or exactly six, one per string, and at most six of them are
  sounding. A \<open>playNote\<close> keeps the number of voices and leaves the voice of every other
  string as it was; when it is accepted (not muted, fret not negative, not within the
  debounce interval), it attacks the one voice of the struck string in place: the note
  and the attack are appended to what the synth and the envelope of that voice were
  asked, with no release before them, the gain and the trigger time are set, the voice
  is sounding, and the number of sounding voices stays as it was when the string was
  already sounding (it grows by one otherwise). A \<open>releaseNote\<close> on a sounding string
  appends a release to the envelope of its voice, and one voice less is sounding.
\<close>

theorem retrigger_reuses_voice_without_release:
  assumes "run es initialWorld = (evs, w)"
  shows "(voiceCount w = 0 \<or> voiceCount w = 6) \<and> soundingVoices w \<le> 6
     \<and> voiceCount (playNote i f v now w) = voiceCount w
     \<and> soundingVoices (playNote i f v now w) \<le> 6
     \<and> (\<forall>j. j \<noteq> i \<longrightarrow> voiceOf (playNote i f v now w) j = voiceOf w j)
     \<and> (\<forall>voice. voiceOf w i = Some voice \<and> \<not> isMuted (store w) \<and> 0 \<le> f
            \<and> STRUM_DEBOUNCE_MS / 1000 \<le> now - lastNoteTime voice \<longrightarrow>
          voiceOf (playNote i f v now w) i =
            Some (voice\<lparr>gain := velocityToGain v minGain maxGain gainGamma
                                   * masterVolume (store w),
                        synth := synth voice @ [GUITAR_TUNING ! nat i + f],
                        envelope := envelope voice @ [TriggerAttack],
                        isPlaying := True, lastNoteTime := now\<rparr>)
          \<and> soundingVoices (playNote i f v now w) =
              (if isPlaying voice then soundingVoices w else soundingVoices w + 1)
          \<and> i \<in> activeStrings (store (playNote i f v now w)))
     \<and> (\<forall>voice. voiceOf w i = Some voice \<and> isPlaying voice \<longrightarrow>
          voiceOf (releaseNote i w) i =
            Some (voice\<lparr>envelope := envelope voice @ [TriggerRelease], isPlaying := False\<rparr>)
          \<and> soundingVoices (releaseNote i w) + 1 = soundingVoices w
          \<and> i \<notin> activeStrings (store (releaseNote i w)))"
proof -
  have "voicesOk initialWorld" by (simp add: voicesOk_def initialWorld_def newEngine_def)
  from run_voicesOk[OF assms this] have ok: "voicesOk w" .
  then have ok': "voicesOk (playNote i f v now w)" by (rule playNote_voicesOk)
  have c: "voiceCount w = 0 \<or> voiceCount w = 6"
    using ok by (auto simp: voicesOk_def voiceCount_def split: option.splits)
  have k: "voiceCount (playNote i f v now w) = voiceCount w"
    by (auto simp: voiceCount_def playNote_def Let_def split: option.splits)
  have o: "\<forall>j. j \<noteq> i \<longrightarrow> voiceOf (playNote i f v now w) j = voiceOf w j"
    by (auto simp: voiceOf_def playNote_def Let_def split: option.splits)
  have a: "voiceOf (playNote i f v now w) i =
            Some (voice\<lparr>gain := velocityToGain v minGain maxGain gainGamma
                                   * masterVolume (store w),
                        synth := synth voice @ [GUITAR_TUNING ! nat i + f],
                        envelope := envelope voice @ [TriggerAttack],
                        isPlaying := True, lastNoteTime := now\<rparr>)
          \<and> soundingVoices (playNote i f v now w) =
              (if isPlaying voice then soundingVoices w else soundingVoices w + 1)
          \<and> i \<in> activeStrings (store (playNote i f v now w))"
    if h: "voiceOf w i = Some voice" "\<not> isMuted (store w)" "0 \<le> f"
          "STRUM_DEBOUNCE_MS / 1000 \<le> now - lastNoteTime voice" for voice
  proof -
    from h(1) obtain st where st: "state (engine w) = Some st" "0 \<le> i"
        "i < int (length (voices st))" "voice = voices st ! nat i"
      by (auto simp: voiceOf_def split: option.splits if_splits)
    from ok st(1) have l: "length (voices st) = 6" "isInitialized st"
      by (simp_all add: voicesOk_def)
    from st(2,3) l(1) have n: "nat i < length (voices st)" "nat i < length GUITAR_TUNING"
      by (simp_all add: GUITAR_TUNING_def)
    have m: "\<not> getFrettedMidi (GUITAR_TUNING ! nat i) f < 0"
      "getFrettedMidi (GUITAR_TUNING ! nat i) f = GUITAR_TUNING ! nat i + f"
      using h(3) st(2,3) l(1)
      by (auto simp: getFrettedMidi_def GUITAR_TUNING_def nth_Cons split: nat.splits)
    have p: "playNote i f v now w =
        w\<lparr>engine := (engine w)\<lparr>state := Some (st\<lparr>voices := (voices st)[nat i :=
              voice\<lparr>gain := velocityToGain v minGain maxGain gainGamma
                                 * masterVolume (store w),
                    synth := synth voice @ [GUITAR_TUNING ! nat i + f],
                    envelope := envelope voice @ [TriggerAttack],
                    isPlaying := True, lastNoteTime := now\<rparr>]\<rparr>)\<rparr>,
          store := (store w)\<lparr>activeStrings := insert i (activeStrings (store w))\<rparr>\<rparr>"
      using st l n m h(2,4) by (simp add: playNote_def Let_def)
    show ?thesis
      using st n by (simp add: p voiceOf_def soundingVoices_def filter_update_playing)
  qed
  have r: "voiceOf (releaseNote i w) i =
            Some (voice\<lparr>envelope := envelope voice @ [TriggerRelease], isPlaying := False\<rparr>)
          \<and> soundingVoices (releaseNote i w) + 1 = soundingVoices w
          \<and> i \<notin> activeStrings (store (releaseNote i w))"
    if h: "voiceOf w i = Some voice" "isPlaying voice" for voice
  proof -
    from h(1) obtain st where st: "state (engine w) = Some st" "0 \<le> i"
        "i < int (length (voices st))" "voice = voices st ! nat i"
      by (auto simp: voiceOf_def split: option.splits if_splits)
    from ok st(1) have l: "isInitialized st" by (simp add: voicesOk_def)
    from st(2,3) have n: "nat i < length (voices st)" by simp
    have p: "releaseNote i w =
        w\<lparr>engine := (engine w)\<lparr>state := Some (st\<lparr>voices := (voices st)[nat i :=
              voice\<lparr>envelope := envelope voice @ [TriggerRelease],
                    isPlaying := False\<rparr>]\<rparr>)\<rparr>,
          store := (store w)\<lparr>activeStrings := activeStrings (store w) - {i}\<rparr>\<rparr>"
      using st l h(2) by (simp add: releaseNote_def Let_def)
    have "Suc (length (filter isPlaying ((voices st)[nat i :=
             voice\<lparr>envelope := envelope voice @ [TriggerRelease], isPlaying := False\<rparr>])))
          = length (filter isPlaying (voices st))"
      using n h(2) st(4) by (intro filter_update_released) simp_all
    then show ?thesis
      using st n by (simp add: p voiceOf_def soundingVoices_def)
  qed
  from c voicesOk_sounding[OF ok] k voicesOk_sounding[OF ok'] o a r show ?thesis by blast
qed

theorem retrigger_reuses_voice_without_release_witness:
  "voiceCount (snd (run offlineSession initialWorld)) = 6
   \<and> soundingVoices (snd (run offlineSession initialWorld)) = 2
   \<and> voiceOf (snd (run offlineSession initialWorld)) 0 =
       Some \<lparr>synth = [40], envelope = [TriggerAttack], gain = 72 / 100, isPlaying = True,
             lastNoteTime = 1\<rparr>
   \<and> voiceOf (playNote 0 3 1 5 (snd (run offlineSession initialWorld))) 0 =
       Some \<lparr>synth = [40, 43], envelope = [TriggerAttack, TriggerAttack], gain = 72 / 100,
             isPlaying = True, lastNoteTime = 5\<rparr>
   \<and> soundingVoices (playNote 0 3 1 5 (snd (run offlineSession initialWorld))) = 2
   \<and> voiceCount (playNote 0 3 1 5 (snd (run offlineSession initialWorld))) = 6
   \<and> voiceOf (playNote 0 3 1 5 (snd (run offlineSession initialWorld))) 5
       = voiceOf (snd (run offlineSession initialWorld)) 5
   \<and> voiceOf (releaseNote 0 (snd (run offlineSession initialWorld))) 0 =
       Some \<lparr>synth = [40], envelope = [TriggerAttack, TriggerRelease], gain = 72 / 100,
             isPlaying = False, lastNoteTime = 1\<rparr>
   \<and> soundingVoices (releaseNote 0 (snd (run offlineSession initialWorld))) = 1"
proof -
  have r: "run offlineSession initialWorld =
             (fst (run offlineSession initialWorld), snd (run offlineSession initialWorld))"
    by simp
  have v: "voiceOf (snd (run offlineSession initialWorld)) 0 =
       Some \<lparr>synth = [40], envelope = [TriggerAttack], gain = 72 / 100, isPlaying = True,
             lastNoteTime = 1\<rparr>"
    by (simp add: offlineSession_def voiceOf_def session_defs)
  have s: "soundingVoices (snd (run offlineSession initialWorld)) = 2"
    by (simp add: offlineSession_def soundingVoices_def session_defs)
  have c: "voiceCount (snd (run offlineSession initialWorld)) = 6"
    by (simp add: offlineSession_def voiceCount_def session_defs)
  have m: "\<not> isMuted (store (snd (run offlineSession initialWorld)))"
    "masterVolume (store (snd (run offlineSession initialWorld))) = 8 / 10"
    by (simp_all add: offlineSession_def session_defs)
  have g: "velocityToGain 1 minGain maxGain gainGamma = 9 / 10"
    by (simp add: velocityToGain_def lerp_def clamp_def minGain_def maxGain_def)
  from retrigger_reuses_voice_without_release[OF r, where i = 0 and f = 3 and v = 1
         and now = 5]
       v s c m g
  show ?thesis by (simp add: STRUM_DEBOUNCE_MS_def GUITAR_TUNING_def)
qed

text \<open>
  C7 as stated fails in its release-then-retrigger: string 2 is sounding, and a new note
  on it at time 5 leaves the envelope of its voice with the two attacks and no release
  between them, where a release before the trigger leaves attack, release, attack.
\<close>

theorem retrigger_sends_no_release:
  "map_option isPlaying (voiceOf struckWorld 2) = Some True
   \<and> map_option envelope (voiceOf (playNote 2 3 1 5 struckWorld) 2) =
       Some [TriggerAttack, TriggerAttack]
   \<and> map_option envelope (voiceOf (playNote 2 3 1 5 (releaseNote 2 struckWorld)) 2) =
       Some [TriggerAttack, TriggerRelease, TriggerAttack]
   \<and> map_option synth (voiceOf (playNote 2 3 1 5 struckWorld) 2) = Some [50, 53]"
  by (simp add: struckWorld_def voiceOf_def session_defs)

text \<open>
  C8: for a sample that qualifies (a stored previous sample, positive elapsed time, speed
  above the threshold, at least the debounce interval after the last strum), an event is
  emitted; its velocity is \<open>clamp(speed / STRUM_SPEED_MAX, 0, 1)\<close> and lies in [0, 1], its
  string index is \<open>clamp(floor((1 - y) * 6), 0, 5)\<close> and lies in 0..5, and its direction
  is down when the vertical displacement since the previous sample is positive, up
  otherwise.
\<close>

theorem strum_event_fields:
  assumes "state (engine w) = Some st"
      and "lastPosition (strumState st) = Some lastPos"
      and "ts - lastTimestamp (strumState st) > 0"
      and "speed = magnitude (subtract p lastPos) / ((ts - lastTimestamp (strumState st)) / 1000)"
      and "speed > STRUM_SPEED_THRESHOLD"
      and "ts - lastStrumTime (engine w) \<ge> STRUM_DEBOUNCE_MS"
  shows "\<exists>ev. fst (processStrumMovement p ts now w) = Some ev
           \<and> timestamp ev = ts
           \<and> velocity ev = clamp (speed / STRUM_SPEED_MAX) 0 1
           \<and> 0 \<le> velocity ev \<and> velocity ev \<le> 1
           \<and> stringIndex ev = clamp \<lfloor>(1 - py p) * 6\<rfloor> 0 5
           \<and> 0 \<le> stringIndex ev \<and> stringIndex ev \<le> 5
           \<and> direction ev = (if py p - py lastPos > 0 then Down else Up)"
  using assms
  by (simp add: processStrumMovement_def setStrumState_def Let_def clamp_def subtract_def)

theorem strum_event_fields_witness:
  "fst (processStrumMovement (pointAt 1) 100 1 seededWorld) =
     Some \<lparr>timestamp = 100, stringIndex = 0, fretIndex = 0, velocity = 1, direction = Down\<rparr>
   \<and> (10::real) > STRUM_SPEED_THRESHOLD
   \<and> (\<exists>ev. fst (processStrumMovement (pointAt 1) 100 1 seededWorld) = Some ev
         \<and> velocity ev = clamp (10 / STRUM_SPEED_MAX) 0 1 \<and> 0 \<le> velocity ev
         \<and> velocity ev \<le> 1 \<and> 0 \<le> stringIndex ev \<and> stringIndex ev \<le> 5
         \<and> direction ev = Down)"
proof -
  have sp: "(10::real) = magnitude (subtract (pointAt 1) (pointAt 0)) /
              ((100 - lastTimestamp (strumState seededState)) / 1000)"
    by (simp add: magnitude_def subtract_def pointAt_def seededState_def)
  have lp: "lastPosition (strumState seededState) = Some (pointAt 0)"
    "100 - lastTimestamp (strumState seededState) > 0"
    by (simp_all add: seededState_def)
  have e: "fst (processStrumMovement (pointAt 1) 100 1 seededWorld) =
     Some \<lparr>timestamp = 100, stringIndex = 0, fretIndex = 0, velocity = 1, direction = Down\<rparr>"
    by (simp add: seededWorld_def session_defs)
  have t: "(10::real) > STRUM_SPEED_THRESHOLD" by (simp add: STRUM_SPEED_THRESHOLD_def)
  have db: "100 - lastStrumTime (engine seededWorld) \<ge> STRUM_DEBOUNCE_MS"
    by (simp add: seededWorld_rest STRUM_DEBOUNCE_MS_def)
  from strum_event_fields[where p = "pointAt 1" and now = 1,
         OF seededWorld_state lp(1) lp(2) sp t db] e t
  show ?thesis by (simp add: pointAt_def)
qed

text \<open>
  C9: the first observation of the strumming hand returns no event and writes only the
  position and the time of the sample into the strum state; a sample whose elapsed time
  since the stored one is zero or negative returns no event and leaves the whole state
  as it was.
\<close>

theorem first_sample_seeds_and_stale_sample_discarded:
  assumes "state (engine w) = Some st"
  shows "(lastPosition (strumState st) = None \<longrightarrow>
            processStrumMovement p ts now w =
              (None, w\<lparr>engine := (engine w)\<lparr>state := Some (st\<lparr>strumState :=
                 (strumState st)\<lparr>lastPosition := Some p, lastTimestamp := ts\<rparr>\<rparr>)\<rparr>\<rparr>))
       \<and> (lastPosition (strumState st) \<noteq> None \<and> ts - lastTimestamp (strumState st) \<le> 0 \<longrightarrow>
            processStrumMovement p ts now w = (None, w))"
  using assms
  by (auto simp: processStrumMovement_def setStrumState_def Let_def divide_le_0_iff)

theorem first_sample_seeds_and_stale_sample_discarded_witness:
  "fst (processStrumMovement (pointAt 0) 0 1 readyWorld) = None
   \<and> strumState (the (state (engine seededWorld))) =
       \<lparr>lastPosition = Some (pointAt 0), lastTimestamp = 0, lastSpeed = 0,
        isStrumming = False\<rparr>
   \<and> processStrumMovement (pointAt 1) 0 1 seededWorld = (None, seededWorld)
   \<and> processStrumMovement (pointAt 1) (- 5) 1 seededWorld = (None, seededWorld)"
  using first_sample_seeds_and_stale_sample_discarded[OF readyWorld_state,
          where p = "pointAt 0" and ts = 0 and now = 1]
        first_sample_seeds_and_stale_sample_discarded[OF seededWorld_state,
          where p = "pointAt 1" and ts = 0 and now = 1]
        first_sample_seeds_and_stale_sample_discarded[OF seededWorld_state,
          where p = "pointAt 1" and ts = "- 5" and now = 1]
  by (simp add: seededWorld_state seededState_def readyState_def)



end
